theory Spec2Isabelle
  imports Complex_Main "HOL-Library.Log_Nat"
begin

section \<open>The circadian zone controller (class CircadianZone)\<close>

text \<open>
  The device class keeps nine private fields and reacts to events of its host: a mode
  change, a brightness or temperature override, a settings update and a percentage push
  of the driver. Every method is modelled as a function from the fields before the call
  to the fields after it, paired with the list of host calls the method made, in the
  order it made them.

  Host calls: \<open>setCapabilityValue\<close> and the driver's \<open>triggerValuesChangedFlow\<close> are
  recorded as effects and are taken to resolve; \<open>this.log\<close> is diagnostic output and is
  not recorded. The driver's \<open>getPercentage()\<close> is an input of the methods that reach
  \<open>refreshZone\<close> (the parameter \<open>drv\<close>), and the host's translation lookup
  \<open>this.homey.__\<close> is an input of \<open>onSettings\<close> (the parameter \<open>tr\<close>).
\<close>

subsection \<open>Numbers\<close>

text \<open>
  The fields are JavaScript numbers, that is IEEE 754 binary64 values. Every finite
  binary64 value is a rational number, so a number is modelled as the rational it
  denotes, and every arithmetic operation of the source as the exact operation followed
  by the rounding of binary64: to the nearest value with a 53-bit significand, a tie
  going to the even significand, with the fixed spacing \<open>2 powi (- 1074)\<close> below the
  normal range. The decimal literal \<open>0.40\<close> of the source is \<open>binary64 (40 / 100)\<close>.
  Comparisons are exact. NaN and the infinities are not modelled: the methods produce
  them only from a NaN or infinite input or from an overflow beyond \<open>2 powi 1024\<close>.
  The properties below are proved for all rational field values, of which the finite
  binary64 values are a part.

  \<open>ilog2 a\<close> is the binary exponent of a positive \<open>a\<close>: the \<open>e\<close> with
  \<open>2 powi e \<le> a < 2 powi (e + 1)\<close>.
\<close>

definition ilog2 :: "rat \<Rightarrow> int" where
  "ilog2 a = (if 1 \<le> a then bitlen \<lfloor>a\<rfloor> - 1 else - bitlen (\<lceil>1 / a\<rceil> - 1))"

definition roundTiesToEven :: "rat \<Rightarrow> int" where
  "roundTiesToEven y =
     (let f = \<lfloor>y\<rfloor>; r = y - of_int f
      in if r < 1 / 2 then f else if 1 / 2 < r then f + 1 else if even f then f else f + 1)"

definition binary64 :: "rat \<Rightarrow> rat" where
  "binary64 x =
     (if x = 0 then 0
      else let e = max (ilog2 \<bar>x\<bar>) (- 1022); q = 2 powi (e - 52)
           in of_int (roundTiesToEven (x / q)) * q)"

text \<open>
  The operators \<open>+\<close>, \<open>-\<close>, \<open>*\<close> and \<open>/\<close> of the source. The source divides by the
  constant 100 only, so the division by zero does not arise.
\<close>

definition js_add :: "rat \<Rightarrow> rat \<Rightarrow> rat" where
  "js_add x y = binary64 (x + y)"

definition js_sub :: "rat \<Rightarrow> rat \<Rightarrow> rat" where
  "js_sub x y = binary64 (x - y)"

definition js_mul :: "rat \<Rightarrow> rat \<Rightarrow> rat" where
  "js_mul x y = binary64 (x * y)"

definition js_div :: "rat \<Rightarrow> rat \<Rightarrow> rat" where
  "js_div x y = binary64 (x / y)"

text \<open>
  \<open>Math.round\<close> gives the integer nearest to its argument, and the integer above when
  the fraction is exactly one half. It is exact: the result is an integer that binary64
  represents.
\<close>

definition Math_round :: "rat \<Rightarrow> rat" where
  "Math_round x = of_int \<lfloor>x + 1 / 2\<rfloor>"

subsection \<open>Data\<close>

record zone =
  mode :: string
  sunsetTemp :: rat
  noonTemp :: rat
  minBrightness :: rat
  maxBrightness :: rat
  nightTemperature :: rat
  nightBrightness :: rat
  currentBrightness :: rat
  currentTemperature :: rat

text \<open>The field initialisers of the class.\<close>

definition initial_zone :: zone where
  "initial_zone =
     \<lparr>mode = ''adaptive'', sunsetTemp = 1, noonTemp = binary64 (40 / 100),
      minBrightness = binary64 (10 / 100), maxBrightness = 1, nightTemperature = 1,
      nightBrightness = binary64 (10 / 100), currentBrightness = 1,
      currentTemperature = binary64 (40 / 100)\<rparr>"

datatype capval = Str string | Num rat

datatype effect =
  SetCapabilityValue string capval
| TriggerValuesChangedFlow rat rat

text \<open>The argument object of the override method and the new settings of a settings event.\<close>

record newValues =
  newBrightness :: rat
  newTemperature :: rat

record newSettings =
  max_brightness :: rat
  min_brightness :: rat
  night_brightness :: rat
  night_temp :: rat
  sunset_temp :: rat
  noon_temp :: rat

subsection \<open>Methods\<close>

definition triggerValuesChangedFlow :: "rat \<Rightarrow> rat \<Rightarrow> effect list" where
  "triggerValuesChangedFlow brightness temperature =
     [TriggerValuesChangedFlow brightness temperature]"

text \<open>
  \<open>updateFromPercentage\<close>: the guard on the mode, then the brightness axis, then the
  temperature axis, each compared with the stored value and stored and persisted when it
  differs, then one trigger when the flag \<open>valuesChanged\<close> is set.
\<close>

definition updateFromPercentage :: "rat \<Rightarrow> zone \<Rightarrow> zone \<times> effect list" where
  "updateFromPercentage percentage z =
     (if mode z \<noteq> ''adaptive'' then (z, [])
      else
        let brightnessDelta = js_sub (maxBrightness z) (minBrightness z);
            brightness =
              js_div (Math_round (js_mul (if percentage > 0
                                          then js_add (js_mul brightnessDelta percentage)
                                                      (minBrightness z)
                                          else minBrightness z) 100)) 100;
            (z1, e1, changed1) =
              (if brightness \<noteq> currentBrightness z
               then (z\<lparr>currentBrightness := brightness\<rparr>,
                     [SetCapabilityValue ''dim'' (Num brightness)], True)
               else (z, [], False));
            tempDelta = js_sub (sunsetTemp z1) (noonTemp z1);
            calculatedTemperature =
              js_add (js_mul tempDelta (js_sub 1 percentage)) (noonTemp z1);
            temperature =
              js_div (Math_round (js_mul (if percentage > 0 then calculatedTemperature
                                          else sunsetTemp z1) 100)) 100;
            (z2, e2, changed2) =
              (if temperature \<noteq> currentTemperature z1
               then (z1\<lparr>currentTemperature := temperature\<rparr>,
                     e1 @ [SetCapabilityValue ''light_temperature'' (Num temperature)], True)
               else (z1, e1, changed1))
        in if changed2 then (z2, e2 @ triggerValuesChangedFlow brightness temperature)
           else (z2, e2))"

definition updateFromNightMode :: "zone \<Rightarrow> zone \<times> effect list" where
  "updateFromNightMode z =
     (if currentBrightness z \<noteq> nightBrightness z \<or> currentTemperature z \<noteq> nightTemperature z
      then (z\<lparr>currentBrightness := nightBrightness z, currentTemperature := nightTemperature z\<rparr>,
            [SetCapabilityValue ''dim'' (Num (nightBrightness z)),
             SetCapabilityValue ''light_temperature'' (Num (nightTemperature z))]
            @ triggerValuesChangedFlow (nightBrightness z) (nightTemperature z))
      else (z, []))"

definition refreshZone :: "rat \<Rightarrow> zone \<Rightarrow> zone \<times> effect list" where
  "refreshZone drv z =
     (if mode z = ''adaptive'' then updateFromPercentage drv z
      else if mode z = ''night'' then updateFromNightMode z
      else (z, []))"

definition setMode :: "rat \<Rightarrow> string \<Rightarrow> zone \<Rightarrow> zone \<times> effect list" where
  "setMode drv newMode z =
     (if mode z \<noteq> newMode
      then
        let z1 = z\<lparr>mode := newMode\<rparr>;
            e1 = [SetCapabilityValue ''adaptive_mode'' (Str newMode)]
        in if newMode = ''adaptive'' \<or> newMode = ''night''
           then (let (z2, e2) = refreshZone drv z1 in (z2, e1 @ e2))
           else (z1, e1)
      else (z, []))"

definition overrideCurrentBrightnessTemperature ::
    "rat \<Rightarrow> newValues \<Rightarrow> zone \<Rightarrow> zone \<times> effect list" where
  "overrideCurrentBrightnessTemperature drv nv z =
     (let (z1, valueChanged1) =
            (if newBrightness nv \<ge> 0 \<and> currentBrightness z \<noteq> newBrightness nv
             then (z\<lparr>currentBrightness := newBrightness nv\<rparr>, True)
             else (z, False));
          (z2, valueChanged2) =
            (if newTemperature nv \<ge> 0 \<and> currentTemperature z1 \<noteq> newTemperature nv
             then (z1\<lparr>currentTemperature := newTemperature nv\<rparr>, True)
             else (z1, valueChanged1))
      in if valueChanged2
         then
           let (z3, e3) = (if mode z2 \<noteq> ''manual'' then setMode drv ''manual'' z2 else (z2, []))
           in (z3, e3 @ triggerValuesChangedFlow (currentBrightness z3) (currentTemperature z3))
         else (z2, []))"

text \<open>The three capability listeners that \<open>onInit\<close> registers.\<close>

definition modeListener :: "rat \<Rightarrow> string \<Rightarrow> zone \<Rightarrow> zone \<times> effect list" where
  "modeListener drv v z = setMode drv v z"

definition temperatureListener :: "rat \<Rightarrow> rat \<Rightarrow> zone \<Rightarrow> zone \<times> effect list" where
  "temperatureListener drv newTemp z =
     overrideCurrentBrightnessTemperature drv \<lparr>newBrightness = - 1, newTemperature = newTemp\<rparr> z"

definition dimListener :: "rat \<Rightarrow> rat \<Rightarrow> zone \<Rightarrow> zone \<times> effect list" where
  "dimListener drv newBright z =
     overrideCurrentBrightnessTemperature drv \<lparr>newBrightness = newBright, newTemperature = - 1\<rparr> z"

text \<open>
  \<open>onSettings\<close> returns the translated message when it rejects the settings and nothing
  (\<open>None\<close>) when it accepts them.
\<close>

definition onSettings ::
    "(string \<Rightarrow> string) \<Rightarrow> rat \<Rightarrow> newSettings \<Rightarrow> zone \<Rightarrow> (zone \<times> effect list) \<times> string option" where
  "onSettings tr drv ns z =
     (if \<not> (sunset_temp ns > noon_temp ns) then ((z, []), Some (tr ''temperature_error''))
      else
        let z1 = z\<lparr>maxBrightness := js_div (max_brightness ns) 100\<rparr>;
            z2 = z1\<lparr>minBrightness := js_div (min_brightness ns) 100\<rparr>;
            z3 = z2\<lparr>noonTemp := js_div (noon_temp ns) 100\<rparr>;
            z4 = z3\<lparr>sunsetTemp := js_div (sunset_temp ns) 100\<rparr>;
            z5 = z4\<lparr>nightBrightness := js_div (night_brightness ns) 100\<rparr>;
            z6 = z5\<lparr>nightTemperature := js_div (night_temp ns) 100\<rparr>
        in (refreshZone drv z6, None))"

subsection \<open>Vocabulary of the specification\<close>

text \<open>
  The specification's \<open>round2(x) = round(x * 100) / 100\<close>, evaluated as the program
  evaluates it: \<open>Math.round\<close> for the rounding and the arithmetic of binary64 for the
  product and the quotient.
\<close>

definition round2 :: "rat \<Rightarrow> rat" where
  "round2 x = js_div (Math_round (js_mul x 100)) 100"

text \<open>The values-changed notifications among the host calls of an operation.\<close>

fun isNotification :: "effect \<Rightarrow> bool" where
  "isNotification (TriggerValuesChangedFlow b t) = True"
| "isNotification (SetCapabilityValue k v) = False"

definition notifications :: "effect list \<Rightarrow> effect list" where
  "notifications es = filter isNotification es"

text \<open>Whether an operation changed one of the two output values.\<close>

definition valuesDiffer :: "zone \<Rightarrow> zone \<Rightarrow> bool" where
  "valuesDiffer z z' =
     (currentBrightness z' \<noteq> currentBrightness z \<or> currentTemperature z' \<noteq> currentTemperature z)"

text \<open>A value with at most two decimal places.\<close>

definition hundredth :: "rat \<Rightarrow> bool" where
  "hundredth x = (round2 x = x)"

text \<open>
  The two targets of the adaptive mode in the specification's words: the interpolation
  between the configured bounds, pinned to the floor value at a percentage of zero, in
  the arithmetic of the program.
\<close>

definition spec_brightness :: "zone \<Rightarrow> rat \<Rightarrow> rat" where
  "spec_brightness z pct =
     round2 (if pct > 0
             then js_add (minBrightness z)
                    (js_mul (js_sub (maxBrightness z) (minBrightness z)) pct)
             else minBrightness z)"

definition spec_temperature :: "zone \<Rightarrow> rat \<Rightarrow> rat" where
  "spec_temperature z pct =
     round2 (if pct > 0
             then js_add (noonTemp z)
                    (js_mul (js_sub (sunsetTemp z) (noonTemp z)) (js_sub 1 pct))
             else sunsetTemp z)"

text \<open>
  A configuration value as the source makes it from a setting that is an integer
  percentage: the setting divided by 100.
\<close>

definition fromPercent :: "int \<Rightarrow> rat" where
  "fromPercent k = js_div (of_int k) 100"

text \<open>The spacing of the binary64 values around a number.\<close>

definition quantum :: "rat \<Rightarrow> rat" where
  "quantum x = 2 powi (max (ilog2 \<bar>x\<bar>) (- 1022) - 52)"

section \<open>Properties\<close>

subsection \<open>The rounding of binary64\<close>

lemma powi_pos [simp]: "0 < (2::rat) powi e"
  by simp

lemma powi_mono: "a \<le> b \<Longrightarrow> (2::rat) powi a \<le> 2 powi b"
  by (rule power_int_increasing) simp_all

lemma powi_less_cancel: "(2::rat) powi a < 2 powi b \<Longrightarrow> a < b"
  using powi_mono [of b a] by (cases "a < b") auto

lemma ilog2_bounds:
  assumes "0 < a"
  shows "2 powi (ilog2 a) \<le> a" and "a < 2 powi (ilog2 a + 1)"
proof -
  have "2 powi (ilog2 a) \<le> a \<and> a < 2 powi (ilog2 a + 1)"
  proof (cases "1 \<le> a")
    case True
    let ?n = "\<lfloor>a\<rfloor>"
    have n: "0 < ?n" using True by simp
    from bitlen_bounds [OF n]
    have lo: "2 ^ nat (bitlen ?n - 1) \<le> ?n" and hi: "?n < 2 ^ nat (bitlen ?n)" by simp_all
    have bl: "1 \<le> bitlen ?n"
      using n by (simp add: bitlen_alt_def)
    have "(2::rat) powi (bitlen ?n - 1) = of_int (2 ^ nat (bitlen ?n - 1))"
      using bl by (simp add: power_int_def)
    also have "\<dots> \<le> of_int ?n" using lo by (simp only: of_int_le_iff)
    also have "\<dots> \<le> a" by simp
    finally have 1: "2 powi (bitlen ?n - 1) \<le> a" .
    have "?n + 1 \<le> 2 ^ nat (bitlen ?n)" using hi by simp
    then have "(of_int (?n + 1) :: rat) \<le> of_int (2 ^ nat (bitlen ?n))"
      by (simp only: of_int_le_iff)
    moreover have "a < of_int (?n + 1)" by linarith
    moreover have "(2::rat) powi (bitlen ?n) = of_int (2 ^ nat (bitlen ?n))"
      using bl by (simp add: power_int_def)
    ultimately have 2: "a < 2 powi (bitlen ?n)" by simp
    from 1 2 True show ?thesis by (simp add: ilog2_def)
  next
    case False
    then have a1: "a < 1" by simp
    let ?b = "1 / a"
    let ?k = "\<lceil>?b\<rceil> - 1"
    have b1: "1 < ?b" using assms a1 by simp
    have k: "0 < ?k" using b1 by linarith
    have kb: "of_int ?k < ?b" "?b \<le> of_int ?k + 1" by linarith+
    from bitlen_bounds [OF k]
    have lo: "2 ^ nat (bitlen ?k - 1) \<le> ?k" and hi: "?k < 2 ^ nat (bitlen ?k)" by simp_all
    have bl: "1 \<le> bitlen ?k"
      using k by (simp add: bitlen_alt_def)
    have "?k + 1 \<le> 2 ^ nat (bitlen ?k)" using hi by simp
    then have "(of_int (?k + 1) :: rat) \<le> of_int (2 ^ nat (bitlen ?k))"
      by (simp only: of_int_le_iff)
    then have "(of_int ?k :: rat) + 1 \<le> 2 ^ nat (bitlen ?k)"
      by (simp only: of_int_add of_int_1 of_int_power of_int_numeral)
    with kb(2) have "?b \<le> 2 ^ nat (bitlen ?k)" by linarith
    then have "1 \<le> a * 2 ^ nat (bitlen ?k)"
      using assms by (simp add: field_simps)
    then have 1: "2 powi (- bitlen ?k) \<le> a"
      using bl by (simp add: power_int_def field_simps)
    have "(of_int (2 ^ nat (bitlen ?k - 1)) :: rat) \<le> of_int ?k"
      using lo by (simp only: of_int_le_iff)
    then have "(2::rat) ^ nat (bitlen ?k - 1) \<le> of_int ?k"
      by (simp only: of_int_power of_int_numeral)
    with kb(1) have "2 ^ nat (bitlen ?k - 1) < ?b" by linarith
    then have "a * 2 ^ nat (bitlen ?k - 1) < 1"
      using assms by (simp add: field_simps)
    then have "a < 1 / 2 ^ nat (bitlen ?k - 1)"
      by (simp add: pos_less_divide_eq)
    moreover have "(2::rat) powi (- bitlen ?k + 1) = 1 / 2 ^ nat (bitlen ?k - 1)"
    proof (cases "bitlen ?k = 1")
      case True then show ?thesis by simp
    next
      case False
      then have "- bitlen ?k + 1 < 0" using bl by simp
      moreover have "nat (- (- bitlen ?k + 1)) = nat (bitlen ?k - 1)" by simp
      ultimately show ?thesis by (simp add: power_int_def field_simps)
    qed
    ultimately have 2: "a < 2 powi (- bitlen ?k + 1)"
      by (simp only:)
    from 1 2 False show ?thesis by (simp add: ilog2_def)
  qed
  then show "2 powi (ilog2 a) \<le> a" and "a < 2 powi (ilog2 a + 1)" by simp_all
qed

lemma ilog2_mono: "0 < a \<Longrightarrow> a \<le> b \<Longrightarrow> ilog2 a \<le> ilog2 b"
proof -
  assume a: "0 < a" and ab: "a \<le> b"
  then have b: "0 < b" by simp
  have "2 powi (ilog2 a) < (2::rat) powi (ilog2 b + 1)"
    using ilog2_bounds(1) [OF a] ilog2_bounds(2) [OF b] ab by linarith
  then show ?thesis using powi_less_cancel by fastforce
qed

lemma ilog2_less: "0 < a \<Longrightarrow> a < 2 powi (k + 1) \<Longrightarrow> ilog2 a \<le> k"
proof -
  assume a: "0 < a" and ak: "a < 2 powi (k + 1)"
  have "2 powi (ilog2 a) < (2::rat) powi (k + 1)"
    using ilog2_bounds(1) [OF a] ak by linarith
  then show ?thesis using powi_less_cancel by fastforce
qed

lemma rte_error: "\<bar>of_int (roundTiesToEven y) - y\<bar> \<le> 1 / 2"
proof -
  have "of_int \<lfloor>y\<rfloor> \<le> y" "y < of_int \<lfloor>y\<rfloor> + 1" by linarith+
  then show ?thesis
    by (auto simp add: roundTiesToEven_def Let_def abs_le_iff)
qed

lemma rte_of_int [simp]: "roundTiesToEven (of_int n) = n"
  by (simp add: roundTiesToEven_def)

lemma rte_mono: "x \<le> y \<Longrightarrow> roundTiesToEven x \<le> roundTiesToEven y"
proof -
  assume xy: "x \<le> y"
  have fx: "of_int \<lfloor>x\<rfloor> \<le> x" "x < of_int \<lfloor>x\<rfloor> + 1" by linarith+
  have fy: "of_int \<lfloor>y\<rfloor> \<le> y" "y < of_int \<lfloor>y\<rfloor> + 1" by linarith+
  have le: "\<lfloor>x\<rfloor> \<le> \<lfloor>y\<rfloor>" using xy by (rule floor_mono)
  show ?thesis
  proof (cases "\<lfloor>x\<rfloor> = \<lfloor>y\<rfloor>")
    case True
    then show ?thesis using xy
      by (auto simp add: roundTiesToEven_def Let_def)
  next
    case False
    then have "\<lfloor>x\<rfloor> + 1 \<le> \<lfloor>y\<rfloor>" using le by simp
    moreover have "roundTiesToEven x \<le> \<lfloor>x\<rfloor> + 1"
      by (simp add: roundTiesToEven_def Let_def)
    moreover have "\<lfloor>y\<rfloor> \<le> roundTiesToEven y"
      by (simp add: roundTiesToEven_def Let_def)
    ultimately show ?thesis by linarith
  qed
qed

lemma rte_minus: "roundTiesToEven (- y) = - roundTiesToEven y"
proof (cases "y = of_int \<lfloor>y\<rfloor>")
  case True
  then obtain n where "y = of_int n" ..
  then show ?thesis
    by (simp del: of_int_minus add: of_int_minus [symmetric])
next
  case False
  have fy: "of_int \<lfloor>y\<rfloor> \<le> y" "y < of_int \<lfloor>y\<rfloor> + 1" by linarith+
  with False have lt: "of_int \<lfloor>y\<rfloor> < y" by (metis order_le_less)
  have "\<lfloor>- y\<rfloor> = - \<lfloor>y\<rfloor> - 1"
    using lt fy by (intro floor_unique) simp_all
  then show ?thesis using lt fy
    by (auto simp add: roundTiesToEven_def Let_def)
qed

lemma quantum_pos [simp]: "0 < quantum x"
  by (simp add: quantum_def)

lemma quantum_nonneg [simp]: "0 \<le> quantum x"
  by (simp add: quantum_def)

lemma quantum_neq0 [simp]: "quantum x \<noteq> 0"
  by (simp add: quantum_def)

lemma powi_split: "(2::rat) powi (a + b) = 2 powi a * 2 powi b"
  by (rule power_int_add) simp

lemma binary64_quantum: "x \<noteq> 0 \<Longrightarrow> binary64 x = of_int (roundTiesToEven (x / quantum x)) * quantum x"
  by (simp add: binary64_def quantum_def Let_def)

lemma binary64_0 [simp]: "binary64 0 = 0"
  by (simp add: binary64_def)

lemma binary64_minus: "binary64 (- x) = - binary64 x"
  by (cases "x = 0") (simp_all add: binary64_quantum quantum_def rte_minus)

lemma binary64_nonneg: "0 \<le> x \<Longrightarrow> 0 \<le> binary64 x"
proof (cases "x = 0")
  case False
  assume "0 \<le> x"
  then have "0 \<le> x / quantum x" by simp
  then have "roundTiesToEven 0 \<le> roundTiesToEven (x / quantum x)" by (rule rte_mono)
  then have "0 \<le> roundTiesToEven (x / quantum x)"
    using rte_of_int [of 0] by simp
  then show ?thesis using False by (simp add: binary64_quantum)
qed simp

lemma powi_quot: "(2::rat) powi a / 2 powi b = 2 powi (a - b)"
  by (simp add: power_int_diff)

lemma binary64_mono_pos:
  assumes x: "0 < x" and xy: "x \<le> y"
  shows "binary64 x \<le> binary64 y"
proof -
  have y: "0 < y" using x xy by simp
  let ?ex = "max (ilog2 x) (- 1022)" and ?ey = "max (ilog2 y) (- 1022)"
  have qx: "quantum x = 2 powi (?ex - 52)" and qy: "quantum y = 2 powi (?ey - 52)"
    using x y by (simp_all add: quantum_def)
  have e: "?ex \<le> ?ey" using ilog2_mono [OF x xy] by simp
  have bx: "binary64 x = of_int (roundTiesToEven (x / quantum x)) * quantum x"
    and b_y: "binary64 y = of_int (roundTiesToEven (y / quantum y)) * quantum y"
    using x y by (simp_all add: binary64_quantum)
  show ?thesis
  proof (cases "?ex = ?ey")
    case True
    then have q: "quantum x = quantum y" by (simp add: qx qy)
    have "x / quantum y \<le> y / quantum y" using xy by (simp add: divide_right_mono)
    then have "roundTiesToEven (x / quantum y) \<le> roundTiesToEven (y / quantum y)" by (rule rte_mono)
    then have "(of_int (roundTiesToEven (x / quantum y)) :: rat) \<le> of_int (roundTiesToEven (y / quantum y))"
      by (simp only: of_int_le_iff)
    then show ?thesis unfolding bx b_y q by (simp add: mult_right_mono)
  next
    case False
    then have lt: "?ex + 1 \<le> ?ey" using e by simp
    then have ey: "?ey = ilog2 y" by linarith
    have xlt: "x \<le> 2 powi (?ex + 1)"
    proof -
      have "x < 2 powi (ilog2 x + 1)" by (rule ilog2_bounds(2) [OF x])
      also have "\<dots> \<le> 2 powi (?ex + 1)" by (rule powi_mono) simp
      finally show ?thesis by simp
    qed
    have "x / quantum x \<le> 2 powi (?ex + 1) / quantum x"
      using xlt by (simp add: divide_right_mono)
    also have "\<dots> = 2 powi 53" unfolding qx powi_quot by simp
    also have "\<dots> = of_int (2 ^ 53)" by simp
    finally have "roundTiesToEven (x / quantum x) \<le> roundTiesToEven (of_int (2 ^ 53))"
      by (rule rte_mono)
    then have "roundTiesToEven (x / quantum x) \<le> 2 ^ 53" by (simp only: rte_of_int)
    then have "(of_int (roundTiesToEven (x / quantum x)) :: rat) \<le> of_int (2 ^ 53)"
      by (simp only: of_int_le_iff)
    then have "binary64 x \<le> of_int (2 ^ 53) * quantum x"
      unfolding bx by (simp add: mult_right_mono)
    also have "of_int (2 ^ 53) * quantum x = 2 powi 53 * 2 powi (?ex - 52)"
      unfolding qx by simp
    also have "\<dots> = 2 powi (53 + (?ex - 52))"
      by (rule powi_split [symmetric])
    also have "53 + (?ex - 52) = ?ex + 1"
      by simp
    finally have up: "binary64 x \<le> 2 powi (?ex + 1)" .
    have ylo: "2 powi ?ey \<le> y" unfolding ey by (rule ilog2_bounds(1) [OF y])
    have "2 powi ?ey / quantum y \<le> y / quantum y"
      using ylo by (simp add: divide_right_mono)
    moreover have "2 powi ?ey / quantum y = of_int (2 ^ 52)"
      unfolding qy powi_quot by simp
    ultimately have "roundTiesToEven (of_int (2 ^ 52)) \<le> roundTiesToEven (y / quantum y)"
      using rte_mono by metis
    then have "2 ^ 52 \<le> roundTiesToEven (y / quantum y)" by (simp only: rte_of_int)
    then have "(of_int (2 ^ 52) :: rat) \<le> of_int (roundTiesToEven (y / quantum y))"
      by (simp only: of_int_le_iff)
    then have "of_int (2 ^ 52) * quantum y \<le> binary64 y"
      unfolding b_y by (simp add: mult_right_mono)
    moreover have "of_int (2 ^ 52) * quantum y = 2 powi 52 * 2 powi (?ey - 52)"
      unfolding qy by simp
    moreover have "2 powi 52 * 2 powi (?ey - 52) = (2::rat) powi ?ey"
    proof -
      have "2 powi 52 * 2 powi (?ey - 52) = (2::rat) powi (52 + (?ey - 52))"
        by (rule powi_split [symmetric])
      also have "52 + (?ey - 52) = ?ey" by simp
      finally show ?thesis .
    qed
    ultimately have lo: "2 powi ?ey \<le> binary64 y" by simp
    have "(2::rat) powi (?ex + 1) \<le> 2 powi ?ey" using lt by (rule powi_mono)
    with up lo show ?thesis by linarith
  qed
qed

lemma binary64_mono: "x \<le> y \<Longrightarrow> binary64 x \<le> binary64 y"
proof -
  assume xy: "x \<le> y"
  consider "0 < x" | "x \<le> 0" "0 \<le> y" | "y < 0" by linarith
  then show ?thesis
  proof cases
    case 1
    then show ?thesis using xy by (rule binary64_mono_pos)
  next
    case 2
    have "0 \<le> binary64 (- x)" using 2 by (intro binary64_nonneg) simp
    then have "binary64 x \<le> 0" by (simp add: binary64_minus)
    moreover have "0 \<le> binary64 y" using 2 by (intro binary64_nonneg)
    ultimately show ?thesis by simp
  next
    case 3
    then have "0 < - y" "- y \<le> - x" using xy by simp_all
    then have "binary64 (- y) \<le> binary64 (- x)" by (rule binary64_mono_pos)
    then show ?thesis by (simp add: binary64_minus)
  qed
qed

lemma binary64_error:
  assumes "\<bar>x\<bar> < 2 powi (k + 1)" and "- 1022 \<le> k"
  shows "\<bar>binary64 x - x\<bar> \<le> 2 powi (k - 53)"
proof (cases "x = 0")
  case True
  then show ?thesis by simp
next
  case False
  then have ax: "0 < \<bar>x\<bar>" by simp
  let ?e = "max (ilog2 \<bar>x\<bar>) (- 1022)"
  have e: "?e \<le> k" using ilog2_less [OF ax assms(1)] assms(2) by simp
  have q: "quantum x = 2 powi (?e - 52)" by (simp add: quantum_def)
  have "\<bar>of_int (roundTiesToEven (x / quantum x)) - x / quantum x\<bar> \<le> 1 / 2"
    by (rule rte_error)
  then have "\<bar>of_int (roundTiesToEven (x / quantum x)) - x / quantum x\<bar> * quantum x
      \<le> 1 / 2 * quantum x"
    by (intro mult_right_mono) simp_all
  moreover have "\<bar>of_int (roundTiesToEven (x / quantum x)) - x / quantum x\<bar> * quantum x
      = \<bar>binary64 x - x\<bar>"
  proof -
    have "\<bar>of_int (roundTiesToEven (x / quantum x)) - x / quantum x\<bar> * quantum x
        = \<bar>(of_int (roundTiesToEven (x / quantum x)) - x / quantum x) * quantum x\<bar>"
      by (simp add: abs_mult)
    also have "(of_int (roundTiesToEven (x / quantum x)) - x / quantum x) * quantum x
        = binary64 x - x"
      using False by (simp add: binary64_quantum left_diff_distrib)
    finally show ?thesis .
  qed
  moreover have "1 / 2 * quantum x = 2 powi (?e - 53)"
  proof -
    have "(2::rat) powi (?e - 53) = 2 powi ((?e - 52) + (- 1))" by simp
    also have "\<dots> = 2 powi (?e - 52) * 2 powi (- 1)"
      by (rule power_int_add) simp
    finally show ?thesis by (simp add: q)
  qed
  moreover have "(2::rat) powi (?e - 53) \<le> 2 powi (k - 53)"
    using e by (intro powi_mono) simp
  ultimately show ?thesis by linarith
qed

lemma binary64_error_2: "\<bar>x\<bar> < 2 \<Longrightarrow> \<bar>binary64 x - x\<bar> \<le> 1 / 9007199254740992"
proof -
  assume "\<bar>x\<bar> < 2"
  then have "\<bar>x\<bar> < 2 powi (0 + 1)" by simp
  then have "\<bar>binary64 x - x\<bar> \<le> 2 powi (0 - 53)" by (rule binary64_error) simp
  moreover have "(2::rat) powi (0 - 53) = 1 / 9007199254740992"
    by (simp add: power_int_def power_divide)
  ultimately show ?thesis by simp
qed



lemma js_add_commute: "js_add x y = js_add y x"
  by (simp add: js_add_def add.commute)

subsection \<open>What each method computes\<close>

lemma ufp_state:
  "mode z = ''adaptive'' \<Longrightarrow>
   fst (updateFromPercentage pct z) =
     z\<lparr>currentBrightness := spec_brightness z pct, currentTemperature := spec_temperature z pct\<rparr>"
  by (simp add: updateFromPercentage_def Let_def round2_def spec_brightness_def
      spec_temperature_def js_add_commute)

lemma ufp_effects:
  "mode z = ''adaptive'' \<Longrightarrow>
   snd (updateFromPercentage pct z) =
     (if spec_brightness z pct \<noteq> currentBrightness z
      then [SetCapabilityValue ''dim'' (Num (spec_brightness z pct))] else [])
     @ (if spec_temperature z pct \<noteq> currentTemperature z
        then [SetCapabilityValue ''light_temperature'' (Num (spec_temperature z pct))] else [])
     @ (if spec_brightness z pct \<noteq> currentBrightness z \<or> spec_temperature z pct \<noteq> currentTemperature z
        then [TriggerValuesChangedFlow (spec_brightness z pct) (spec_temperature z pct)] else [])"
  by (simp add: updateFromPercentage_def Let_def round2_def spec_brightness_def
      spec_temperature_def js_add_commute triggerValuesChangedFlow_def)

lemma ufp_guard: "mode z \<noteq> ''adaptive'' \<Longrightarrow> updateFromPercentage pct z = (z, [])"
  by (simp add: updateFromPercentage_def)

lemma ufp_mode: "mode (fst (updateFromPercentage pct z)) = mode z"
  by (cases "mode z = ''adaptive''") (simp_all add: ufp_state ufp_guard)

lemma ufp_notifications:
  "notifications (snd (updateFromPercentage pct z)) =
     (if valuesDiffer z (fst (updateFromPercentage pct z))
      then [TriggerValuesChangedFlow (currentBrightness (fst (updateFromPercentage pct z)))
              (currentTemperature (fst (updateFromPercentage pct z)))]
      else [])"
  by (cases "mode z = ''adaptive''")
     (simp_all add: ufp_state ufp_effects ufp_guard notifications_def valuesDiffer_def)

lemma night_mode: "mode (fst (updateFromNightMode z)) = mode z"
  by (simp add: updateFromNightMode_def)

lemma night_notifications:
  "notifications (snd (updateFromNightMode z)) =
     (if valuesDiffer z (fst (updateFromNightMode z))
      then [TriggerValuesChangedFlow (currentBrightness (fst (updateFromNightMode z)))
              (currentTemperature (fst (updateFromNightMode z)))]
      else [])"
  by (auto simp add: updateFromNightMode_def notifications_def valuesDiffer_def
      triggerValuesChangedFlow_def)

lemma refresh_mode: "mode (fst (refreshZone drv z)) = mode z"
  by (simp add: refreshZone_def ufp_mode night_mode)

lemma refresh_notifications:
  "notifications (snd (refreshZone drv z)) =
     (if valuesDiffer z (fst (refreshZone drv z))
      then [TriggerValuesChangedFlow (currentBrightness (fst (refreshZone drv z)))
              (currentTemperature (fst (refreshZone drv z)))]
      else [])"
  by (simp add: refreshZone_def ufp_notifications night_notifications)
     (simp add: notifications_def valuesDiffer_def)

lemma valuesDiffer_mode [simp]: "valuesDiffer (z\<lparr>mode := m\<rparr>) z' = valuesDiffer z z'"
  by (simp add: valuesDiffer_def)

lemma setMode_unfold:
  "setMode drv s z =
     (if mode z = s then (z, [])
      else if s = ''adaptive'' \<or> s = ''night''
      then (fst (refreshZone drv (z\<lparr>mode := s\<rparr>)),
            SetCapabilityValue ''adaptive_mode'' (Str s) # snd (refreshZone drv (z\<lparr>mode := s\<rparr>)))
      else (z\<lparr>mode := s\<rparr>, [SetCapabilityValue ''adaptive_mode'' (Str s)]))"
  by (simp add: setMode_def Let_def split_beta)

lemma setMode_notifications:
  "notifications (snd (setMode drv s z)) =
     (if valuesDiffer z (fst (setMode drv s z))
      then [TriggerValuesChangedFlow (currentBrightness (fst (setMode drv s z)))
              (currentTemperature (fst (setMode drv s z)))]
      else [])"
proof -
  have n: "notifications (e # es) = (if isNotification e then e # notifications es else notifications es)"
    for e es by (simp add: notifications_def)
  show ?thesis
    using refresh_notifications [of drv "z\<lparr>mode := s\<rparr>"]
    by (simp add: setMode_unfold n) (simp add: notifications_def valuesDiffer_def)
qed

lemma setMode_manual:
  "mode z \<noteq> ''manual'' \<Longrightarrow>
   setMode drv ''manual'' z = (z\<lparr>mode := ''manual''\<rparr>, [SetCapabilityValue ''adaptive_mode'' (Str ''manual'')])"
  by (simp add: setMode_unfold)

lemma override_unfold:
  "overrideCurrentBrightnessTemperature drv nv z =
     (let b = (if 0 \<le> newBrightness nv then newBrightness nv else currentBrightness z);
          t = (if 0 \<le> newTemperature nv then newTemperature nv else currentTemperature z)
      in if b \<noteq> currentBrightness z \<or> t \<noteq> currentTemperature z
         then (z\<lparr>mode := ''manual'', currentBrightness := b, currentTemperature := t\<rparr>,
               (if mode z \<noteq> ''manual'' then [SetCapabilityValue ''adaptive_mode'' (Str ''manual'')]
                else []) @ [TriggerValuesChangedFlow b t])
         else (z, []))"
  by (auto simp add: overrideCurrentBrightnessTemperature_def Let_def setMode_manual
      triggerValuesChangedFlow_def)

lemma override_notifications:
  "notifications (snd (overrideCurrentBrightnessTemperature drv nv z)) =
     (if valuesDiffer z (fst (overrideCurrentBrightnessTemperature drv nv z))
      then [TriggerValuesChangedFlow
              (currentBrightness (fst (overrideCurrentBrightnessTemperature drv nv z)))
              (currentTemperature (fst (overrideCurrentBrightnessTemperature drv nv z)))]
      else [])"
  by (simp add: override_unfold Let_def notifications_def valuesDiffer_def)

lemma ufp_brightness:
  "mode z = ''adaptive'' \<Longrightarrow>
   currentBrightness (fst (updateFromPercentage pct z)) = spec_brightness z pct"
  by (simp add: ufp_state)

lemma ufp_temperature:
  "mode z = ''adaptive'' \<Longrightarrow>
   currentTemperature (fst (updateFromPercentage pct z)) = spec_temperature z pct"
  by (simp add: ufp_state)

lemma spec_targets_config:
  "spec_brightness (z\<lparr>currentBrightness := b, currentTemperature := t\<rparr>) pct = spec_brightness z pct"
  "spec_temperature (z\<lparr>currentBrightness := b, currentTemperature := t\<rparr>) pct = spec_temperature z pct"
  by (simp_all add: spec_brightness_def spec_temperature_def)

subsection \<open>The interpolation\<close>

lemma abs_boundsD: "\<bar>x - y\<bar> \<le> e \<Longrightarrow> y - e \<le> x \<and> x \<le> y + (e::rat)"
  by (auto simp add: abs_le_iff)

lemma abs_boundsI: "y - e \<le> x \<Longrightarrow> x \<le> y + (e::rat) \<Longrightarrow> \<bar>x - y\<bar> \<le> e"
  by (auto simp add: abs_le_iff)

lemma binary64_near_2:
  "- 2 < x \<Longrightarrow> x < 2 \<Longrightarrow>
   x - 1 / 9007199254740992 \<le> binary64 x \<and> binary64 x \<le> x + 1 / 9007199254740992"
proof -
  assume "- 2 < x" "x < 2"
  then have "\<bar>x\<bar> < 2" by (simp add: abs_less_iff)
  then show ?thesis using abs_boundsD [OF binary64_error_2] by blast
qed




lemma fromPercent_near:
  assumes "0 \<le> k" "k \<le> 100"
  shows "of_int k / 100 - 1 / 9007199254740992 \<le> fromPercent k"
    and "fromPercent k \<le> of_int k / 100 + 1 / 9007199254740992"
proof -
  have "(0::rat) \<le> of_int k" "(of_int k :: rat) \<le> 100"
    using assms by simp_all
  then have "- 2 < (of_int k :: rat) / 100" "(of_int k :: rat) / 100 < 2" by simp_all
  from binary64_near_2 [OF this]
  show "of_int k / 100 - 1 / 9007199254740992 \<le> fromPercent k"
    and "fromPercent k \<le> of_int k / 100 + 1 / 9007199254740992"
    by (simp_all add: fromPercent_def js_div_def)
qed


lemma fromPercent_strict_mono:
  assumes "0 \<le> a" "a < b" "b \<le> 100"
  shows "fromPercent a < fromPercent b"
proof -
  have "a + 1 \<le> b" using assms by simp
  then have "(of_int (a + 1) :: rat) \<le> of_int b" by (simp only: of_int_le_iff)
  then have "(of_int a :: rat) / 100 + 1 / 100 \<le> of_int b / 100" by simp
  moreover have "fromPercent a \<le> of_int a / 100 + 1 / 9007199254740992"
    using assms by (intro fromPercent_near) simp_all
  moreover have "of_int b / 100 - 1 / 9007199254740992 \<le> fromPercent b"
    using assms by (intro fromPercent_near) simp_all
  ultimately show ?thesis by linarith
qed





lemma js_div_100_mono: "x \<le> y \<Longrightarrow> js_div x 100 \<le> js_div y 100"
  unfolding js_div_def by (intro binary64_mono divide_right_mono) simp_all

lemma percent_order:
  assumes "0 \<le> s" "s \<le> 100" "0 \<le> n" "n \<le> 100"
  shows "(js_div (of_int n) 100 < js_div (of_int s) 100) = (n < s)"
proof (cases "n < s")
  case True
  then have "fromPercent n < fromPercent s"
    using assms by (intro fromPercent_strict_mono) simp_all
  with True show ?thesis by (simp add: fromPercent_def)
next
  case False
  then have "(of_int s :: rat) \<le> of_int n" by simp
  then have "js_div (of_int s) 100 \<le> js_div (of_int n) 100" by (rule js_div_100_mono)
  with False show ?thesis by simp
qed



subsection \<open>Concrete values\<close>

lemma initial_zone_fields:
  "mode initial_zone = ''adaptive''"
  "minBrightness initial_zone = binary64 (10 / 100)"
  "maxBrightness initial_zone = 1"
  "noonTemp initial_zone = binary64 (40 / 100)"
  "sunsetTemp initial_zone = 1"
  "currentBrightness initial_zone = 1"
  "currentTemperature initial_zone = binary64 (40 / 100)"
  by (simp_all add: initial_zone_def)

lemma scenario_values:
  "round2 (binary64 (10 / 100)) = binary64 (10 / 100)"
  "round2 1 = 1"
  "round2 (js_add (binary64 (10 / 100)) (js_mul (js_sub 1 (binary64 (10 / 100))) (1 / 2)))
     = binary64 (55 / 100)"
  "round2 (js_add (binary64 (40 / 100)) (js_mul (js_sub 1 (binary64 (40 / 100))) (js_sub 1 (1 / 2))))
     = binary64 (70 / 100)"
  "round2 (js_add (binary64 (10 / 100)) (js_mul (js_sub 1 (binary64 (10 / 100))) 1)) = 1"
  "round2 (js_add (binary64 (40 / 100)) (js_mul (js_sub 1 (binary64 (40 / 100))) (js_sub 1 1)))
     = binary64 (40 / 100)"
  by code_simp+

lemma scenario_distinct:
  "binary64 (55 / 100) \<noteq> 1" "binary64 (70 / 100) \<noteq> binary64 (40 / 100)"
  by code_simp+

text \<open>
  The rounding of binary64 decides the stored value: with a minimum of 0.07, a maximum of
  1 and a percentage of 0.5 the interpolated brightness is a little below 0.535 and is
  stored as 0.53, where the exact formula gives 0.535 and would round to 0.54.
\<close>

lemma representation_error_example:
  "round2 (js_add (binary64 (7 / 100)) (js_mul (js_sub 1 (binary64 (7 / 100))) (1 / 2)))
     = binary64 (53 / 100)"
  "Math_round ((7 / 100 + (1 - 7 / 100) * (1 / 2)) * 100) / 100 = 54 / 100"
  by code_simp+

lemma updateFromPercentage_example_007:
  "currentBrightness (fst (updateFromPercentage (1 / 2)
      (initial_zone\<lparr>minBrightness := binary64 (7 / 100)\<rparr>))) = binary64 (53 / 100)"
proof -
  let ?z = "initial_zone\<lparr>minBrightness := binary64 (7 / 100)\<rparr>"
  have m: "mode ?z = ''adaptive''"
    by (simp add: initial_zone_def)
  have f: "minBrightness ?z = binary64 (7 / 100)" "maxBrightness ?z = 1"
    by (simp_all add: initial_zone_def)
  show ?thesis
    unfolding ufp_brightness [OF m] spec_brightness_def f
    by (simp only: representation_error_example if_True half_gt_zero_iff zero_less_one)
qed



lemma override_dim:
  "0 \<le> b \<Longrightarrow> b \<noteq> currentBrightness z \<Longrightarrow>
   overrideCurrentBrightnessTemperature drv \<lparr>newBrightness = b, newTemperature = - 1\<rparr> z =
     (z\<lparr>mode := ''manual'', currentBrightness := b\<rparr>,
      (if mode z \<noteq> ''manual'' then [SetCapabilityValue ''adaptive_mode'' (Str ''manual'')] else [])
      @ [TriggerValuesChangedFlow b (currentTemperature z)])"
  by (simp add: override_unfold Let_def)

lemma override_example_values:
  "0 \<le> binary64 (555 / 1000)"
  "binary64 (555 / 1000) \<noteq> binary64 (56 / 100)"
  "round2 (binary64 (555 / 1000)) = binary64 (56 / 100)"
  "round2 (binary64 (56 / 100)) = binary64 (56 / 100)"
  "0 \<le> binary64 (30 / 100)"
  "round2 (binary64 (30 / 100)) = binary64 (30 / 100)"
  "binary64 (30 / 100) \<noteq> 1"
  by code_simp+

subsection \<open>The claims of the specification\<close>

text \<open>
  C1. In adaptive mode \<open>updateFromPercentage pct\<close> leaves \<open>currentBrightness\<close> at
  \<open>round2\<close> of the interpolated brightness (the minimum when \<open>pct\<close> is not positive)
  and \<open>currentTemperature\<close> at \<open>round2\<close> of the interpolated temperature (the sunset
  temperature when \<open>pct\<close> is not positive), the formulas being evaluated in binary64 as
  the program evaluates them. With minimum 0.10, maximum 1.00, noon 0.40 and sunset 1.00
  the percentages 0, 0.5 and 1 give 0.10 and 1.00, 0.55 and 0.70, 1.00 and 0.40.
\<close>

theorem updateFromPercentage_rounded_targets:
  "mode z = ''adaptive'' \<Longrightarrow>
     currentBrightness (fst (updateFromPercentage pct z)) =
       round2 (if pct > 0
               then js_add (minBrightness z)
                      (js_mul (js_sub (maxBrightness z) (minBrightness z)) pct)
               else minBrightness z)
   \<and> currentTemperature (fst (updateFromPercentage pct z)) =
       round2 (if pct > 0
               then js_add (noonTemp z)
                      (js_mul (js_sub (sunsetTemp z) (noonTemp z)) (js_sub 1 pct))
               else sunsetTemp z)
   \<and> (minBrightness z = binary64 (10 / 100) \<and> maxBrightness z = 1
        \<and> noonTemp z = binary64 (40 / 100) \<and> sunsetTemp z = 1
        \<longrightarrow> currentBrightness (fst (updateFromPercentage 0 z)) = binary64 (10 / 100)
          \<and> currentTemperature (fst (updateFromPercentage 0 z)) = 1
          \<and> currentBrightness (fst (updateFromPercentage (1 / 2) z)) = binary64 (55 / 100)
          \<and> currentTemperature (fst (updateFromPercentage (1 / 2) z)) = binary64 (70 / 100)
          \<and> currentBrightness (fst (updateFromPercentage 1 z)) = 1
          \<and> currentTemperature (fst (updateFromPercentage 1 z)) = binary64 (40 / 100))"
proof -
  assume a: "mode z = ''adaptive''"
  have gb: "currentBrightness (fst (updateFromPercentage p z)) = spec_brightness z p" for p
    using a by (rule ufp_brightness)
  have gt: "currentTemperature (fst (updateFromPercentage p z)) = spec_temperature z p" for p
    using a by (rule ufp_temperature)
  have scenario:
    "currentBrightness (fst (updateFromPercentage 0 z)) = binary64 (10 / 100)
      \<and> currentTemperature (fst (updateFromPercentage 0 z)) = 1
      \<and> currentBrightness (fst (updateFromPercentage (1 / 2) z)) = binary64 (55 / 100)
      \<and> currentTemperature (fst (updateFromPercentage (1 / 2) z)) = binary64 (70 / 100)
      \<and> currentBrightness (fst (updateFromPercentage 1 z)) = 1
      \<and> currentTemperature (fst (updateFromPercentage 1 z)) = binary64 (40 / 100)"
    if c: "minBrightness z = binary64 (10 / 100)" "maxBrightness z = 1"
      "noonTemp z = binary64 (40 / 100)" "sunsetTemp z = 1"
    unfolding gb gt spec_brightness_def spec_temperature_def c
    by (simp only: scenario_values if_True if_False zero_less_one half_gt_zero_iff less_irrefl
        simp_thms)
  have formulas: "currentBrightness (fst (updateFromPercentage pct z)) =
       round2 (if pct > 0
               then js_add (minBrightness z)
                      (js_mul (js_sub (maxBrightness z) (minBrightness z)) pct)
               else minBrightness z)
   \<and> currentTemperature (fst (updateFromPercentage pct z)) =
       round2 (if pct > 0
               then js_add (noonTemp z)
                      (js_mul (js_sub (sunsetTemp z) (noonTemp z)) (js_sub 1 pct))
               else sunsetTemp z)"
    unfolding gb gt spec_brightness_def spec_temperature_def by (simp only: simp_thms)
  from formulas scenario show ?thesis
    by blast
qed

theorem updateFromPercentage_rounded_targets_witness:
  "mode initial_zone = ''adaptive''
   \<and> minBrightness initial_zone = binary64 (10 / 100) \<and> maxBrightness initial_zone = 1
   \<and> noonTemp initial_zone = binary64 (40 / 100) \<and> sunsetTemp initial_zone = 1
   \<and> currentBrightness (fst (updateFromPercentage (1 / 2) initial_zone)) = binary64 (55 / 100)
   \<and> currentTemperature (fst (updateFromPercentage (1 / 2) initial_zone)) = binary64 (70 / 100)"
  using updateFromPercentage_rounded_targets [OF initial_zone_fields(1), of 0]
    initial_zone_fields(1-5)
  by blast

text \<open>
  C2, as the specification states it, fails for the override: it compares and stores the
  values as they are given, not rounded. With a stored brightness of 0.56 and a new
  brightness of 0.555 a notification is emitted, although both values are equal when
  compared after rounding.
\<close>

theorem notification_post_rounding_counterexample:
  "notifications (snd (overrideCurrentBrightnessTemperature 0
        \<lparr>newBrightness = binary64 (555 / 1000), newTemperature = - 1\<rparr>
        (initial_zone\<lparr>currentBrightness := binary64 (56 / 100)\<rparr>))) \<noteq> []
   \<and> round2 (currentBrightness (fst (overrideCurrentBrightnessTemperature 0
        \<lparr>newBrightness = binary64 (555 / 1000), newTemperature = - 1\<rparr>
        (initial_zone\<lparr>currentBrightness := binary64 (56 / 100)\<rparr>))))
       = round2 (currentBrightness (initial_zone\<lparr>currentBrightness := binary64 (56 / 100)\<rparr>))
   \<and> round2 (currentTemperature (fst (overrideCurrentBrightnessTemperature 0
        \<lparr>newBrightness = binary64 (555 / 1000), newTemperature = - 1\<rparr>
        (initial_zone\<lparr>currentBrightness := binary64 (56 / 100)\<rparr>))))
       = round2 (currentTemperature (initial_zone\<lparr>currentBrightness := binary64 (56 / 100)\<rparr>))"
proof -
  let ?z = "initial_zone\<lparr>currentBrightness := binary64 (56 / 100)\<rparr>"
  have c: "currentBrightness ?z = binary64 (56 / 100)"
    by simp
  have d: "binary64 (555 / 1000) \<noteq> currentBrightness ?z"
    unfolding c by (rule override_example_values(2))
  note r = override_dim [OF override_example_values(1) d, of 0]
  have n: "notifications (snd (overrideCurrentBrightnessTemperature 0
      \<lparr>newBrightness = binary64 (555 / 1000), newTemperature = - 1\<rparr> ?z)) \<noteq> []"
    unfolding r by (simp add: notifications_def)
  have b: "currentBrightness (fst (overrideCurrentBrightnessTemperature 0
      \<lparr>newBrightness = binary64 (555 / 1000), newTemperature = - 1\<rparr> ?z)) = binary64 (555 / 1000)"
    unfolding r by simp
  have t: "currentTemperature (fst (overrideCurrentBrightnessTemperature 0
      \<lparr>newBrightness = binary64 (555 / 1000), newTemperature = - 1\<rparr> ?z)) = currentTemperature ?z"
    unfolding r by simp
  show ?thesis
    unfolding b t c override_example_values(3,4) using n by (simp only: simp_thms)
qed

text \<open>
  C2, amended. For \<open>updateFromPercentage\<close>, \<open>updateFromNightMode\<close>, \<open>refreshZone\<close> and the
  override, and also for \<open>setMode\<close> and \<open>onSettings\<close> which reach them, a values-changed
  notification is among the host calls of the operation if and only if the operation
  changed the stored \<open>currentBrightness\<close> or the stored \<open>currentTemperature\<close>, the
  stored values being compared as they are.
\<close>

theorem notification_iff_values_changed:
  "(notifications (snd (updateFromPercentage pct z)) \<noteq> [])
      = valuesDiffer z (fst (updateFromPercentage pct z))
   \<and> (notifications (snd (updateFromNightMode z)) \<noteq> [])
      = valuesDiffer z (fst (updateFromNightMode z))
   \<and> (notifications (snd (refreshZone drv z)) \<noteq> [])
      = valuesDiffer z (fst (refreshZone drv z))
   \<and> (notifications (snd (overrideCurrentBrightnessTemperature drv nv z)) \<noteq> [])
      = valuesDiffer z (fst (overrideCurrentBrightnessTemperature drv nv z))
   \<and> (notifications (snd (setMode drv s z)) \<noteq> [])
      = valuesDiffer z (fst (setMode drv s z))
   \<and> (notifications (snd (fst (onSettings tr drv ns z))) \<noteq> [])
      = valuesDiffer z (fst (fst (onSettings tr drv ns z)))"
proof -
  have "(notifications (snd (fst (onSettings tr drv ns z))) \<noteq> [])
      = valuesDiffer z (fst (fst (onSettings tr drv ns z)))"
  proof (cases "sunset_temp ns > noon_temp ns")
    case True
    then show ?thesis
      using refresh_notifications
      by (simp add: onSettings_def Let_def) (simp add: valuesDiffer_def)
  next
    case False
    then show ?thesis
      by (simp add: onSettings_def notifications_def valuesDiffer_def)
  qed
  then show ?thesis
    by (simp add: ufp_notifications night_notifications refresh_notifications
        override_notifications setMode_notifications)
qed

theorem notification_iff_values_changed_witness:
  "notifications (snd (updateFromPercentage (1 / 2) initial_zone)) \<noteq> []
   \<and> valuesDiffer initial_zone (fst (updateFromPercentage (1 / 2) initial_zone))
   \<and> notifications (snd (updateFromPercentage 1 initial_zone)) = []
   \<and> \<not> valuesDiffer initial_zone (fst (updateFromPercentage 1 initial_zone))"
proof -
  note m = initial_zone_fields(1)
  have b: "spec_brightness initial_zone (1 / 2) = binary64 (55 / 100)"
    unfolding spec_brightness_def initial_zone_fields
    by (simp only: scenario_values if_True zero_less_one half_gt_zero_iff)
  have a: "valuesDiffer initial_zone (fst (updateFromPercentage (1 / 2) initial_zone))"
    unfolding valuesDiffer_def ufp_brightness [OF m] b initial_zone_fields
    using scenario_distinct(1) by (simp only: simp_thms)
  have b1: "spec_brightness initial_zone 1 = 1"
    and t1: "spec_temperature initial_zone 1 = binary64 (40 / 100)"
    unfolding spec_brightness_def spec_temperature_def initial_zone_fields
    by (simp_all only: scenario_values if_True zero_less_one)
  have n: "\<not> valuesDiffer initial_zone (fst (updateFromPercentage 1 initial_zone))"
    unfolding valuesDiffer_def ufp_brightness [OF m] ufp_temperature [OF m] b1 t1 initial_zone_fields
    by (simp only: simp_thms)
  from a n notification_iff_values_changed [of "1 / 2" initial_zone]
    notification_iff_values_changed [of 1 initial_zone]
  show ?thesis by blast
qed

text \<open>
  C3, as the specification states it, fails: the override stores the value it is given,
  without rounding it. With a stored brightness of 0.56 and a new brightness of 0.555,
  whose \<open>round2\<close> is the stored 0.56, the override still stores 0.555.
\<close>

theorem override_rounds_counterexample:
  "0 \<le> binary64 (555 / 1000)
   \<and> round2 (binary64 (555 / 1000))
       = currentBrightness (initial_zone\<lparr>currentBrightness := binary64 (56 / 100)\<rparr>)
   \<and> currentBrightness (fst (overrideCurrentBrightnessTemperature 0
          \<lparr>newBrightness = binary64 (555 / 1000), newTemperature = - 1\<rparr>
          (initial_zone\<lparr>currentBrightness := binary64 (56 / 100)\<rparr>))) = binary64 (555 / 1000)
   \<and> currentBrightness (fst (overrideCurrentBrightnessTemperature 0
          \<lparr>newBrightness = binary64 (555 / 1000), newTemperature = - 1\<rparr>
          (initial_zone\<lparr>currentBrightness := binary64 (56 / 100)\<rparr>)))
       \<noteq> round2 (binary64 (555 / 1000))"
proof -
  let ?z = "initial_zone\<lparr>currentBrightness := binary64 (56 / 100)\<rparr>"
  have c: "currentBrightness ?z = binary64 (56 / 100)"
    by simp
  have d: "binary64 (555 / 1000) \<noteq> currentBrightness ?z"
    unfolding c by (rule override_example_values(2))
  note r = override_dim [OF override_example_values(1) d, of 0]
  have b: "currentBrightness (fst (overrideCurrentBrightnessTemperature 0
      \<lparr>newBrightness = binary64 (555 / 1000), newTemperature = - 1\<rparr> ?z)) = binary64 (555 / 1000)"
    unfolding r by simp
  show ?thesis
    unfolding b c override_example_values(3)
    using override_example_values(1,2) by (simp only: simp_thms)
qed

text \<open>
  C3, amended. For every provided axis value \<open>v\<close> (one that is not negative) the override
  leaves that axis at \<open>v\<close> itself, so the axis changes if and only if \<open>v\<close> differs from
  the stored value; the stored value is \<open>round2 v\<close> when \<open>v\<close> already has at most two
  decimal places.
\<close>

theorem override_stores_given_value:
  "(0 \<le> newBrightness nv \<longrightarrow>
      currentBrightness (fst (overrideCurrentBrightnessTemperature drv nv z)) = newBrightness nv
      \<and> ((currentBrightness (fst (overrideCurrentBrightnessTemperature drv nv z)) \<noteq> currentBrightness z)
           = (newBrightness nv \<noteq> currentBrightness z))
      \<and> (hundredth (newBrightness nv) \<longrightarrow>
           currentBrightness (fst (overrideCurrentBrightnessTemperature drv nv z))
             = round2 (newBrightness nv)))
   \<and> (0 \<le> newTemperature nv \<longrightarrow>
      currentTemperature (fst (overrideCurrentBrightnessTemperature drv nv z)) = newTemperature nv
      \<and> ((currentTemperature (fst (overrideCurrentBrightnessTemperature drv nv z)) \<noteq> currentTemperature z)
           = (newTemperature nv \<noteq> currentTemperature z))
      \<and> (hundredth (newTemperature nv) \<longrightarrow>
           currentTemperature (fst (overrideCurrentBrightnessTemperature drv nv z))
             = round2 (newTemperature nv)))"
  by (auto simp add: override_unfold Let_def hundredth_def)

theorem override_stores_given_value_witness:
  "0 \<le> binary64 (30 / 100) \<and> hundredth (binary64 (30 / 100)) \<and> 0 \<le> binary64 (555 / 1000)
   \<and> currentBrightness (fst (overrideCurrentBrightnessTemperature 0
          \<lparr>newBrightness = binary64 (30 / 100), newTemperature = binary64 (555 / 1000)\<rparr>
          initial_zone)) = round2 (binary64 (30 / 100))
   \<and> currentTemperature (fst (overrideCurrentBrightnessTemperature 0
          \<lparr>newBrightness = binary64 (30 / 100), newTemperature = binary64 (555 / 1000)\<rparr>
          initial_zone)) = binary64 (555 / 1000)"
proof -
  have h: "hundredth (binary64 (30 / 100))"
    unfolding hundredth_def by (rule override_example_values(6))
  have s: "newBrightness \<lparr>newBrightness = binary64 (30 / 100), newTemperature = binary64 (555 / 1000)\<rparr>
      = binary64 (30 / 100)"
    "newTemperature \<lparr>newBrightness = binary64 (30 / 100), newTemperature = binary64 (555 / 1000)\<rparr>
      = binary64 (555 / 1000)"
    by (simp_all only: newValues.simps)
  from override_stores_given_value
    [of "\<lparr>newBrightness = binary64 (30 / 100), newTemperature = binary64 (555 / 1000)\<rparr>"
      0 initial_zone, unfolded s]
    h override_example_values(1,5)
  show ?thesis by blast
qed

text \<open>
  C4. \<open>onSettings\<close> rejects the new settings, returning the translated message and
  changing no field and calling nothing, if and only if the new sunset temperature is
  not greater than the new noon temperature. Otherwise it replaces the six configuration
  fields by the settings divided by 100 and runs \<open>refreshZone\<close> on the result, whatever
  the mode, and returns no message. The source compares the settings before it divides
  them: a rejected pair is never in strict order after the division, and for integer
  percentages from 0 to 100 the comparison after the division decides the same.
\<close>

theorem onSettings_validation:
  "onSettings tr drv ns z =
     (if sunset_temp ns > noon_temp ns
      then (refreshZone drv
              (z\<lparr>maxBrightness := js_div (max_brightness ns) 100,
                 minBrightness := js_div (min_brightness ns) 100,
                 noonTemp := js_div (noon_temp ns) 100,
                 sunsetTemp := js_div (sunset_temp ns) 100,
                 nightBrightness := js_div (night_brightness ns) 100,
                 nightTemperature := js_div (night_temp ns) 100\<rparr>), None)
      else ((z, []), Some (tr ''temperature_error'')))
   \<and> (snd (onSettings tr drv ns z) \<noteq> None) = (\<not> sunset_temp ns > noon_temp ns)
   \<and> (\<not> sunset_temp ns > noon_temp ns
        \<longrightarrow> \<not> js_div (sunset_temp ns) 100 > js_div (noon_temp ns) 100)
   \<and> (sunset_temp ns = of_int s \<and> noon_temp ns = of_int n
        \<and> 0 \<le> s \<and> s \<le> 100 \<and> 0 \<le> n \<and> n \<le> 100
        \<longrightarrow> (snd (onSettings tr drv ns z) \<noteq> None)
            = (\<not> js_div (sunset_temp ns) 100 > js_div (noon_temp ns) 100))"
proof -
  have 1: "onSettings tr drv ns z =
     (if sunset_temp ns > noon_temp ns
      then (refreshZone drv
              (z\<lparr>maxBrightness := js_div (max_brightness ns) 100,
                 minBrightness := js_div (min_brightness ns) 100,
                 noonTemp := js_div (noon_temp ns) 100,
                 sunsetTemp := js_div (sunset_temp ns) 100,
                 nightBrightness := js_div (night_brightness ns) 100,
                 nightTemperature := js_div (night_temp ns) 100\<rparr>), None)
      else ((z, []), Some (tr ''temperature_error'')))"
    by (simp add: onSettings_def Let_def)
  have 2: "(snd (onSettings tr drv ns z) \<noteq> None) = (\<not> sunset_temp ns > noon_temp ns)"
    by (simp add: onSettings_def Let_def)
  have 3: "\<not> js_div (sunset_temp ns) 100 > js_div (noon_temp ns) 100"
    if "\<not> sunset_temp ns > noon_temp ns"
    using that js_div_100_mono [of "sunset_temp ns" "noon_temp ns"] by simp
  have 4: "(snd (onSettings tr drv ns z) \<noteq> None)
      = (\<not> js_div (sunset_temp ns) 100 > js_div (noon_temp ns) 100)"
    if "sunset_temp ns = of_int s" "noon_temp ns = of_int n"
      "0 \<le> s" "s \<le> 100" "0 \<le> n" "n \<le> 100"
    unfolding 2 using that percent_order [of s n] by simp
  from 1 2 3 4 show ?thesis by blast
qed

theorem onSettings_validation_witness:
  "\<not> ((40::rat) > 60)
   \<and> onSettings (\<lambda>k. k) 0
        \<lparr>max_brightness = 100, min_brightness = 10, night_brightness = 10, night_temp = 100,
         sunset_temp = 40, noon_temp = 60\<rparr> initial_zone
      = ((initial_zone, []), Some ''temperature_error'')
   \<and> \<not> js_div 40 100 > js_div 60 100
   \<and> (100::rat) > 30
   \<and> snd (onSettings (\<lambda>k. k) 0
        \<lparr>max_brightness = 100, min_brightness = 10, night_brightness = 10, night_temp = 100,
         sunset_temp = 100, noon_temp = 30\<rparr> initial_zone) = None"
  using onSettings_validation [of "\<lambda>k. k" 0
      "\<lparr>max_brightness = 100, min_brightness = 10, night_brightness = 10, night_temp = 100,
         sunset_temp = 40, noon_temp = 60\<rparr>" initial_zone 40 60]
    onSettings_validation [of "\<lambda>k. k" 0
      "\<lparr>max_brightness = 100, min_brightness = 10, night_brightness = 10, night_temp = 100,
         sunset_temp = 100, noon_temp = 30\<rparr>" initial_zone 100 30]
  by simp

text \<open>
  C5. When the mode is not adaptive, \<open>updateFromPercentage\<close> changes no field and makes
  no host call: nothing is persisted and no notification is emitted.
\<close>

theorem updateFromPercentage_guard:
  "mode z \<noteq> ''adaptive'' \<Longrightarrow> updateFromPercentage pct z = (z, [])"
  by (simp add: updateFromPercentage_def)

theorem updateFromPercentage_guard_witness:
  "mode (initial_zone\<lparr>mode := ''night''\<rparr>) \<noteq> ''adaptive''
   \<and> updateFromPercentage (1 / 2) (initial_zone\<lparr>mode := ''night''\<rparr>)
       = (initial_zone\<lparr>mode := ''night''\<rparr>, [])"
  using updateFromPercentage_guard [of "initial_zone\<lparr>mode := ''night''\<rparr>" "1 / 2"]
  by simp



text \<open>
  C7. In adaptive mode a second \<open>updateFromPercentage\<close> with the same percentage, run
  on the state the first one left, changes no field and makes no host call, so it emits
  no notification.
\<close>

theorem updateFromPercentage_idempotent:
  "mode z = ''adaptive'' \<Longrightarrow>
   updateFromPercentage pct (fst (updateFromPercentage pct z))
     = (fst (updateFromPercentage pct z), [])
   \<and> notifications (snd (updateFromPercentage pct (fst (updateFromPercentage pct z)))) = []"
proof -
  assume m: "mode z = ''adaptive''"
  let ?z' = "fst (updateFromPercentage pct z)"
  have m': "mode ?z' = ''adaptive''"
    using m by (simp add: ufp_mode)
  have z': "?z' = z\<lparr>currentBrightness := spec_brightness z pct,
                     currentTemperature := spec_temperature z pct\<rparr>"
    by (rule ufp_state [OF m])
  have b: "spec_brightness ?z' pct = currentBrightness ?z'"
    and t: "spec_temperature ?z' pct = currentTemperature ?z'"
    by (simp_all add: z' spec_targets_config)
  have "fst (updateFromPercentage pct ?z') = ?z'"
    unfolding ufp_state [OF m'] b t by simp
  moreover have "snd (updateFromPercentage pct ?z') = []"
    unfolding ufp_effects [OF m'] b t by simp
  ultimately have "updateFromPercentage pct ?z' = (?z', [])"
    by (simp add: prod_eq_iff)
  then show ?thesis
    by (simp add: notifications_def)
qed

theorem updateFromPercentage_idempotent_witness:
  "mode initial_zone = ''adaptive''
   \<and> notifications (snd (updateFromPercentage (1 / 2) initial_zone)) \<noteq> []
   \<and> updateFromPercentage (1 / 2) (fst (updateFromPercentage (1 / 2) initial_zone))
       = (fst (updateFromPercentage (1 / 2) initial_zone), [])"
proof -
  note m = initial_zone_fields(1)
  have b: "spec_brightness initial_zone (1 / 2) = binary64 (55 / 100)"
    unfolding spec_brightness_def initial_zone_fields
    by (simp only: scenario_values if_True zero_less_one half_gt_zero_iff)
  have "spec_brightness initial_zone (1 / 2) \<noteq> currentBrightness initial_zone"
    unfolding b initial_zone_fields by (rule scenario_distinct(1))
  then have n: "notifications (snd (updateFromPercentage (1 / 2) initial_zone)) \<noteq> []"
    by (simp add: ufp_effects [OF m] notifications_def)
  from updateFromPercentage_idempotent [OF m, of "1 / 2"] m n
  show ?thesis by blast
qed

text \<open>
  C8. The brightness listener calls the override with the temperature unset (the
  sentinel \<open>-1\<close>). When the brightness it provides (a value that is not negative) differs
  from the stored one, the mode afterwards is manual, \<open>currentTemperature\<close> is what it
  was, and exactly one notification is emitted, carrying the new brightness and the
  unchanged temperature; no field but the mode and the brightness changes.
\<close>

theorem dim_override_frame:
  "0 \<le> b \<Longrightarrow> b \<noteq> currentBrightness z \<Longrightarrow>
     mode (fst (dimListener drv b z)) = ''manual''
   \<and> currentTemperature (fst (dimListener drv b z)) = currentTemperature z
   \<and> currentBrightness (fst (dimListener drv b z)) = b
   \<and> notifications (snd (dimListener drv b z)) = [TriggerValuesChangedFlow b (currentTemperature z)]
   \<and> fst (dimListener drv b z) = z\<lparr>mode := ''manual'', currentBrightness := b\<rparr>"
  by (simp add: dimListener_def override_unfold Let_def notifications_def)

theorem dim_override_frame_witness:
  "0 \<le> binary64 (30 / 100) \<and> binary64 (30 / 100) \<noteq> currentBrightness initial_zone
   \<and> mode (fst (dimListener 0 (binary64 (30 / 100)) initial_zone)) = ''manual''
   \<and> currentTemperature (fst (dimListener 0 (binary64 (30 / 100)) initial_zone))
       = binary64 (40 / 100)
   \<and> notifications (snd (dimListener 0 (binary64 (30 / 100)) initial_zone))
       = [TriggerValuesChangedFlow (binary64 (30 / 100)) (binary64 (40 / 100))]"
proof -
  have h: "0 \<le> binary64 (30 / 100)" "binary64 (30 / 100) \<noteq> currentBrightness initial_zone"
    unfolding initial_zone_fields by (rule override_example_values)+
  from dim_override_frame [OF h, of 0] h show ?thesis
    unfolding initial_zone_fields by blast
qed

text \<open>
  C9. \<open>setMode\<close> with the mode that is already active changes no field and makes no host
  call: nothing is persisted, no recompute runs, no notification is emitted.
\<close>

theorem setMode_same_mode:
  "setMode drv (mode z) z = (z, [])"
  by (simp add: setMode_def)

theorem setMode_same_mode_witness:
  "setMode (1 / 2) (mode initial_zone) initial_zone = (initial_zone, [])
   \<and> setMode (1 / 2) ''adaptive'' initial_zone = (initial_zone, [])"
proof -
  have "mode initial_zone = ''adaptive''"
    by (simp add: initial_zone_def)
  with setMode_same_mode [of "1 / 2" initial_zone] show ?thesis
    by simp
qed

text \<open>
  C10. \<open>setMode\<close> validates nothing: for every string \<open>s\<close> other than the current mode
  it stores \<open>s\<close> as the mode and persists it under the capability \<open>adaptive_mode\<close>; it
  then runs \<open>refreshZone\<close> exactly when \<open>s\<close> is \<open>adaptive\<close> or \<open>night\<close>, and does
  nothing more for any other string.
\<close>

theorem setMode_unvalidated:
  "s \<noteq> mode z \<Longrightarrow>
     mode (fst (setMode drv s z)) = s
   \<and> setMode drv s z =
       (if s = ''adaptive'' \<or> s = ''night''
        then (fst (refreshZone drv (z\<lparr>mode := s\<rparr>)),
              SetCapabilityValue ''adaptive_mode'' (Str s) # snd (refreshZone drv (z\<lparr>mode := s\<rparr>)))
        else (z\<lparr>mode := s\<rparr>, [SetCapabilityValue ''adaptive_mode'' (Str s)]))"
  using refresh_mode [of drv "z\<lparr>mode := s\<rparr>"] by (auto simp add: setMode_unfold)

theorem setMode_unvalidated_witness:
  "''party'' \<noteq> mode initial_zone
   \<and> setMode (1 / 2) ''party'' initial_zone
       = (initial_zone\<lparr>mode := ''party''\<rparr>, [SetCapabilityValue ''adaptive_mode'' (Str ''party'')])"
proof -
  have h: "''party'' \<noteq> mode initial_zone"
    by (simp add: initial_zone_def)
  from setMode_unvalidated [OF h, of "1 / 2"] h show ?thesis
    by simp
qed

end
